theory Spec2Isabelle
  imports Main "HOL-Library.Word"
begin

section \<open>JavaScript strings\<close>

text \<open>
  A JavaScript string is a sequence of UTF-16 code units. The regular expressions of the
  upload route carry no \<open>u\<close> flag, so they match code unit by code unit.
  \<open>js\<close> turns an ASCII literal of the source into its code units.
\<close>

type_synonym jsstring = "16 word list"

definition js :: "string \<Rightarrow> jsstring" where
  "js s = map of_char s"

text \<open>
  The class \<open>\s\<close> of ECMAScript: TAB, LF, VT, FF, CR, SP, NBSP, U+1680, U+2000 to U+200A,
  U+2028, U+2029, U+202F, U+205F, U+3000 and U+FEFF.
\<close>

definition isWhiteSpace :: "16 word \<Rightarrow> bool" where
  "isWhiteSpace c \<longleftrightarrow>
     (0x0009 \<le> c \<and> c \<le> 0x000D) \<or> c = 0x0020 \<or> c = 0x00A0 \<or> c = 0x1680 \<or>
     (0x2000 \<le> c \<and> c \<le> 0x200A) \<or> c = 0x2028 \<or> c = 0x2029 \<or> c = 0x202F \<or>
     c = 0x205F \<or> c = 0x3000 \<or> c = 0xFEFF"

text \<open>The class \<open>[a-zA-Z0-9.-]\<close>; the source's expression is its complement.\<close>

definition isKept :: "16 word \<Rightarrow> bool" where
  "isKept c \<longleftrightarrow>
     (0x61 \<le> c \<and> c \<le> 0x7A) \<or> (0x41 \<le> c \<and> c \<le> 0x5A) \<or> (0x30 \<le> c \<and> c \<le> 0x39) \<or>
     c = 0x2E \<or> c = 0x2D"

text \<open>
  \<open>.replace(/\s+/g, '-')\<close>: every maximal run of white space becomes one hyphen
  (the match is greedy and the search resumes after the run).
\<close>

function replaceWhiteSpaceRuns :: "jsstring \<Rightarrow> jsstring" where
  "replaceWhiteSpaceRuns [] = []"
| "replaceWhiteSpaceRuns (c # cs) =
     (if isWhiteSpace c then 0x2D # replaceWhiteSpaceRuns (dropWhile isWhiteSpace cs)
      else c # replaceWhiteSpaceRuns cs)"
  by pat_completeness auto
termination
  by (relation "measure length") (auto simp: le_imp_less_Suc length_dropWhile_le)

text \<open>\<open>.replace(/[^a-zA-Z0-9.-]/g, '')\<close>: every code unit outside the class is dropped.\<close>

definition removeSpecialCharacters :: "jsstring \<Rightarrow> jsstring" where
  "removeSpecialCharacters s = filter isKept s"

text \<open>
  \<open>.toLowerCase()\<close>. On a string of ASCII code units it maps \<open>A\<close> to \<open>Z\<close> onto \<open>a\<close> to
  \<open>z\<close> and leaves the rest. On other strings it follows the Unicode case mapping of the
  JavaScript runtime, which is not part of this repository: it is the parameter
  \<open>unicodeLower\<close>.
\<close>

definition lowerASCII :: "16 word \<Rightarrow> 16 word" where
  "lowerASCII c = (if 0x41 \<le> c \<and> c \<le> 0x5A then c + 0x20 else c)"

definition toLowerCase :: "(jsstring \<Rightarrow> jsstring) \<Rightarrow> jsstring \<Rightarrow> jsstring" where
  "toLowerCase unicodeLower s =
     (if list_all (\<lambda>c. c < 0x80) s then map lowerASCII s else unicodeLower s)"

text \<open>
  The value of \<open>sanitizedFileName\<close> (second handler, lines 286 to 289):
  \<open>file.name.replace(/\s+/g, '-').replace(/[^a-zA-Z0-9.-]/g, '').toLowerCase()\<close>.
\<close>

definition sanitizedFileName :: "(jsstring \<Rightarrow> jsstring) \<Rightarrow> jsstring \<Rightarrow> jsstring" where
  "sanitizedFileName unicodeLower name =
     toLowerCase unicodeLower (removeSpecialCharacters (replaceWhiteSpaceRuns name))"

text \<open>
  A template literal renders \<open>Date.now()\<close> with Number::toString. \<open>Date.now()\<close> is an
  integer of magnitude at most 8.64e15, and such a number prints as its decimal digits,
  with a minus sign when negative.
\<close>

function digits :: "nat \<Rightarrow> jsstring" where
  "digits n = (if n < 10 then [of_nat (48 + n)] else digits (n div 10) @ [of_nat (48 + n mod 10)])"
  by pat_completeness auto
termination
  by (relation "measure id") auto

declare digits.simps [simp del]

definition numberToString :: "int \<Rightarrow> jsstring" where
  "numberToString n = (if n < 0 then 0x2D # digits (nat (- n)) else digits (nat n))"

section \<open>Requests, responses and the environment of a request\<close>

text \<open>A \<open>File\<close> of the form data: the handlers read its name, declared type and size.\<close>

record File =
  file_name :: jsstring
  file_type :: jsstring
  file_size :: nat

text \<open>
  \<open>FormData.get\<close> returns \<open>null\<close> for an absent field, and otherwise a string or a
  \<open>File\<close>, whatever the field is called; the casts \<open>as File\<close> and \<open>as string\<close> of the
  source check nothing at run time.
\<close>

datatype entry = StringEntry jsstring | FileEntry File

record FormData =
  get_file :: "entry option"
  get_directory :: "entry option"

text \<open>
  A value caught by \<open>catch\<close>: an \<open>Error\<close> with its message, or anything else
  (\<open>error instanceof Error\<close> is false).
\<close>

datatype thrown = Error (message: jsstring) | NonError

text \<open>\<open>request.formData()\<close> rejects on a body that is no form, and resolves otherwise.\<close>

type_synonym NextRequest = "thrown + FormData"

text \<open>The JSON bodies the handlers build, and \<open>NextResponse.json(body, { status })\<close>.\<close>

datatype body =
    ErrorBody (body_error: jsstring) (body_details: "jsstring option")
  | UploadBody (body_url: jsstring) (body_fileName: jsstring) (body_storage: "jsstring option")

record NextResponse =
  status :: nat
  body :: body

definition NextResponse_json :: "body \<Rightarrow> nat option \<Rightarrow> NextResponse" where
  "NextResponse_json b init =
     \<lparr>status = (case init of None \<Rightarrow> 200 | Some s \<Rightarrow> s), body = b\<rparr>"

text \<open>
  What one run of the retry loop's \<open>try\<close> block does: the object-store attempt
  (\<open>bucket\<close>, \<open>file\<close>, \<open>arrayBuffer\<close>, \<open>blob.save\<close>) completes or throws; the blob-store
  \<open>put\<close> resolves to a blob with its URL or throws.
\<close>

datatype save_outcome = Saved | SaveThrew thrown

datatype put_outcome = PutResolved jsstring | PutThrew thrown

text \<open>
  What a handler does to the outside world, in order: attempts to write an object and
  pauses (\<open>setTimeout\<close>, in milliseconds). Console output is not recorded.
\<close>

datatype event =
    GcsSave (gcs_bucket: jsstring) (gcs_key: jsstring) (gcs_contentType: jsstring)
      (gcs_public: "bool option")
  | BlobPut (blob_key: jsstring) (blob_token: jsstring)
  | Sleep nat

text \<open>
  What a request reads from its surroundings: the process environment, whether
  \<open>new Storage()\<close> gave a client (\<open>storage\<close> is not \<open>null\<close>), the clock, and the outcome of
  the n-th write attempt of this request (counted from 0) on either backend.
\<close>

record env =
  GCS_BUCKET_NAME :: "jsstring option"
  BLOB_READ_WRITE_TOKEN :: "jsstring option"
  storageClient :: bool
  Date_now :: int
  blob_save :: "nat \<Rightarrow> save_outcome"
  put :: "nat \<Rightarrow> put_outcome"

section \<open>The upload route\<close>

definition allowedTypes :: "jsstring list" where
  "allowedTypes =
     [js ''image/jpeg'', js ''image/jpg'', js ''image/png'', js ''image/webp'', js ''image/avif'']"

definition maxSize :: nat where
  "maxSize = 15 * 1024 * 1024"

definition allowedDirectories :: "jsstring list" where
  "allowedDirectories =
     [js ''courses'', js ''batches'', js ''general'', js ''products'', js ''products/banner'',
      js ''category-icons'', js ''logos'']"

definition compressImageIfNeeded :: "File \<Rightarrow> File" where
  "compressImageIfNeeded f = f"

text \<open>
  The four validation responses, under the names the specification gives their kinds,
  and the two other error responses of the handlers.
\<close>

definition MissingFile :: NextResponse where
  "MissingFile = NextResponse_json (ErrorBody (js ''No file provided'') None) (Some 400)"

definition InvalidType :: NextResponse where
  "InvalidType = NextResponse_json
     (ErrorBody (js ''Invalid file type. Only JPEG, PNG, WebP, and AVIF images are allowed.'') None)
     (Some 400)"

definition TooLarge :: NextResponse where
  "TooLarge = NextResponse_json
     (ErrorBody (js ''File too large. Maximum size is 15MB.'') None) (Some 400)"

definition InvalidDirectory :: NextResponse where
  "InvalidDirectory = NextResponse_json
     (ErrorBody (js ''Invalid directory. Allowed directories: courses, batches, general, products, products/banner, category-icons, logos'') None)
     (Some 400)"

text \<open>The \<open>catch\<close> block of both handlers (lines 96 to 111 and 350 to 365).\<close>

definition uploadFailed :: "thrown \<Rightarrow> NextResponse" where
  "uploadFailed err = NextResponse_json
     (ErrorBody (js ''Failed to upload file'')
        (Some (case err of Error m \<Rightarrow> m | NonError \<Rightarrow> js ''Unknown error'')))
     (Some 500)"

text \<open>
  \<open>formData.get('directory') as string || 'general'\<close>: \<open>null\<close> and the empty string are
  falsy and give the default; any other string, and a \<open>File\<close>, is kept.
\<close>

definition directoryOf :: "FormData \<Rightarrow> entry" where
  "directoryOf fd =
     (case get_directory fd of
        None \<Rightarrow> StringEntry (js ''general'')
      | Some (StringEntry s) \<Rightarrow> if s = [] then StringEntry (js ''general'') else StringEntry s
      | Some (FileEntry f) \<Rightarrow> FileEntry f)"

text \<open>
  The checks of lines 41 to 71 (the same text at lines 244 to 274), in the source's
  order. \<open>!file\<close> holds for \<open>null\<close> and for the empty string; a non-empty string has no
  \<open>type\<close>, and \<open>includes(undefined)\<close> is false; \<open>includes\<close> compares with \<open>===\<close>, so a
  \<open>File\<close> is no member of a list of strings. A request that passes gives the file and the
  directory string the rest of the handler works with.
\<close>

definition validate :: "FormData \<Rightarrow> NextResponse + (File \<times> jsstring)" where
  "validate fd =
     (case get_file fd of
        None \<Rightarrow> Inl MissingFile
      | Some (StringEntry s) \<Rightarrow> if s = [] then Inl MissingFile else Inl InvalidType
      | Some (FileEntry f) \<Rightarrow>
          if file_type f \<notin> set allowedTypes then Inl InvalidType
          else if file_size f > maxSize then Inl TooLarge
          else (case directoryOf fd of
                  FileEntry d \<Rightarrow> Inl InvalidDirectory
                | StringEntry d \<Rightarrow>
                    if d \<notin> set allowedDirectories then Inl InvalidDirectory
                    else Inr (f, d)))"

text \<open>
  The retry loop, written three times in the source (lines 119 to 153, 179 to 197 and
  305 to 339) with the same control flow:
  \<^verbatim>\<open>while (retries > 0) { try { ...; break } catch (e) { retries--; if (retries === 0) throw e; await sleep(1000) } }\<close>
  \<open>attempt n\<close> is the outcome of the \<open>try\<close> block at the n-th run and \<open>ev\<close> the write it
  attempts. The result is the event trace with either the value thrown out of the loop or
  the value assigned before \<open>break\<close> (\<open>None\<close> when the loop ends with nothing assigned).
\<close>

fun retryLoop :: "(nat \<Rightarrow> thrown + 'a) \<Rightarrow> event \<Rightarrow> nat \<Rightarrow> nat \<Rightarrow> event list \<times> (thrown + 'a option)" where
  "retryLoop attempt ev 0 n = ([], Inr None)"
| "retryLoop attempt ev (Suc retries) n =
     (case attempt n of
        Inr v \<Rightarrow> ([ev], Inr (Some v))
      | Inl uploadError \<Rightarrow>
          if retries = 0 then ([ev], Inl uploadError)
          else (case retryLoop attempt ev retries (Suc n) of
                  (evs, r) \<Rightarrow> (ev # Sleep 1000 # evs, r)))"

text \<open>\<open>uploadToGCS\<close> (lines 115 to 164). \<open>!publicUrl\<close> holds for \<open>undefined\<close> and for \<open>''\<close>.\<close>

definition uploadToGCS :: "env \<Rightarrow> jsstring \<Rightarrow> jsstring \<Rightarrow> File \<Rightarrow> jsstring \<Rightarrow> event list \<times> (thrown + NextResponse)" where
  "uploadToGCS e bucketName fileName f contentType =
     (case retryLoop
             (\<lambda>n. case blob_save e n of
                     Saved \<Rightarrow> Inr (js ''https://storage.googleapis.com/'' @ bucketName @ js ''/'' @ fileName)
                   | SaveThrew uploadError \<Rightarrow> Inl uploadError)
             (GcsSave bucketName fileName contentType (Some True)) 3 0 of
        (evs, Inl uploadError) \<Rightarrow> (evs, Inl uploadError)
      | (evs, Inr publicUrl) \<Rightarrow>
          if publicUrl = None \<or> publicUrl = Some []
          then (evs, Inl (Error (js ''Upload failed - no URL returned'')))
          else (evs, Inr (NextResponse_json
                  (UploadBody (the publicUrl) fileName (Some (js ''gcs''))) None)))"

text \<open>\<open>uploadToVercelBlob\<close> (lines 167 to 209).\<close>

definition uploadToVercelBlob :: "env \<Rightarrow> jsstring \<Rightarrow> File \<Rightarrow> event list \<times> (thrown + NextResponse)" where
  "uploadToVercelBlob e fileName f =
     (if BLOB_READ_WRITE_TOKEN e = None \<or> BLOB_READ_WRITE_TOKEN e = Some []
      then ([], Inr (NextResponse_json
              (ErrorBody (js ''Server configuration error: Neither GCS nor Vercel Blob is configured properly'') None)
              (Some 500)))
      else (case retryLoop
                   (\<lambda>n. case put e n of
                           PutResolved blobUrl \<Rightarrow> Inr blobUrl
                         | PutThrew uploadError \<Rightarrow> Inl uploadError)
                   (BlobPut fileName (the (BLOB_READ_WRITE_TOKEN e))) 3 0 of
              (evs, Inl uploadError) \<Rightarrow> (evs, Inl uploadError)
            | (evs, Inr None) \<Rightarrow> (evs, Inl (Error (js ''Upload failed - no blob returned'')))
            | (evs, Inr (Some blobUrl)) \<Rightarrow>
                (evs, Inr (NextResponse_json
                   (UploadBody blobUrl fileName (Some (js ''vercel-blob''))) None))))"

text \<open>
  \<open>POST\<close> of the first handler (lines 24 to 112), which writes to the object store or to
  the blob store. \<open>bucketName && storage\<close> is falsy for an unset or empty bucket name and
  for a \<open>null\<close> client.
\<close>

definition useGCS :: "env \<Rightarrow> bool" where
  "useGCS e \<longleftrightarrow> GCS_BUCKET_NAME e \<noteq> None \<and> GCS_BUCKET_NAME e \<noteq> Some [] \<and> storageClient e"

definition POST_try :: "env \<Rightarrow> NextRequest \<Rightarrow> event list \<times> (thrown + NextResponse)" where
  "POST_try e request =
     (case request of
        Inl err \<Rightarrow> ([], Inl err)
      | Inr formData \<Rightarrow>
          (case validate formData of
             Inl rejection \<Rightarrow> ([], Inr rejection)
           | Inr (f, dir) \<Rightarrow>
               let timestamp = Date_now e;
                   fileName = dir @ js ''/'' @ numberToString timestamp @ js ''-'' @ file_name f;
                   processedFile = compressImageIfNeeded f
               in if useGCS e
                  then uploadToGCS e (the (GCS_BUCKET_NAME e)) fileName processedFile (file_type f)
                  else uploadToVercelBlob e fileName processedFile))"

definition POST :: "env \<Rightarrow> NextRequest \<Rightarrow> event list \<times> NextResponse" where
  "POST e request =
     (case POST_try e request of
        (evs, Inr response) \<Rightarrow> (evs, response)
      | (evs, Inl err) \<Rightarrow> (evs, uploadFailed err))"

text \<open>
  \<open>POST\<close> of the second handler (lines 227 to 366), which writes to the object store
  only. Its client is a constant of the module, the bucket name is checked after the
  validation, and the file name is sanitized before the key is built. \<open>publicUrl\<close> starts
  as \<open>''\<close>.
\<close>

definition POST_gcs_try :: "(jsstring \<Rightarrow> jsstring) \<Rightarrow> env \<Rightarrow> NextRequest \<Rightarrow> event list \<times> (thrown + NextResponse)" where
  "POST_gcs_try unicodeLower e request =
     (case request of
        Inl err \<Rightarrow> ([], Inl err)
      | Inr formData \<Rightarrow>
          (case validate formData of
             Inl rejection \<Rightarrow> ([], Inr rejection)
           | Inr (f, dir) \<Rightarrow>
               if GCS_BUCKET_NAME e = None \<or> GCS_BUCKET_NAME e = Some []
               then ([], Inr (NextResponse_json
                       (ErrorBody (js ''Server configuration error: GCS_BUCKET_NAME not set'') None)
                       (Some 500)))
               else
                 let bucketName = the (GCS_BUCKET_NAME e);
                     timestamp = Date_now e;
                     fileName = dir @ js ''/'' @ numberToString timestamp @ js ''-''
                                  @ sanitizedFileName unicodeLower (file_name f);
                     processedFile = compressImageIfNeeded f
                 in (case retryLoop
                            (\<lambda>n. case blob_save e n of
                                    Saved \<Rightarrow> Inr (js ''https://storage.googleapis.com/'' @ bucketName @ js ''/'' @ fileName)
                                  | SaveThrew uploadError \<Rightarrow> Inl uploadError)
                            (GcsSave bucketName fileName (file_type f) None) 3 0 of
                       (evs, Inl uploadError) \<Rightarrow> (evs, Inl uploadError)
                     | (evs, Inr assigned) \<Rightarrow>
                         let publicUrl = (case assigned of None \<Rightarrow> [] | Some u \<Rightarrow> u)
                         in if publicUrl = []
                            then (evs, Inl (Error (js ''Upload failed - no URL returned'')))
                            else (evs, Inr (NextResponse_json
                                    (UploadBody publicUrl fileName None) None)))))"

definition POST_gcs :: "(jsstring \<Rightarrow> jsstring) \<Rightarrow> env \<Rightarrow> NextRequest \<Rightarrow> event list \<times> NextResponse" where
  "POST_gcs unicodeLower e request =
     (case POST_gcs_try unicodeLower e request of
        (evs, Inr response) \<Rightarrow> (evs, response)
      | (evs, Inl err) \<Rightarrow> (evs, uploadFailed err))"

text \<open>The write attempts of a trace, and whether a response reports success.\<close>

fun isWrite :: "event \<Rightarrow> bool" where
  "isWrite (GcsSave b k c p) = True"
| "isWrite (BlobPut k t) = True"
| "isWrite (Sleep ms) = False"

text \<open>The code units \<open>[a-z0-9.-]\<close>: what a sanitized file name is made of.\<close>

definition isLowerClean :: "16 word \<Rightarrow> bool" where
  "isLowerClean c \<longleftrightarrow>
     (0x61 \<le> c \<and> c \<le> 0x7A) \<or> (0x30 \<le> c \<and> c \<le> 0x39) \<or> c = 0x2E \<or> c = 0x2D"

text \<open>
  The four conditions of the validation, each read on its own, so that one request can
  meet several: \<open>!file\<close>, \<open>!allowedTypes.includes(file?.type)\<close> (a missing file and a
  string have no type), \<open>file?.size > maxSize\<close> (false when there is no size), and
  \<open>!allowedDirectories.includes(directory)\<close>. \<open>checks\<close> lists them in the order of the
  source, each with the response it leads to.
\<close>

definition fileMissing :: "FormData \<Rightarrow> bool" where
  "fileMissing fd \<longleftrightarrow> get_file fd = None \<or> get_file fd = Some (StringEntry [])"

definition typeRejected :: "FormData \<Rightarrow> bool" where
  "typeRejected fd \<longleftrightarrow>
     (case get_file fd of
        Some (FileEntry f) \<Rightarrow> file_type f \<notin> set allowedTypes
      | _ \<Rightarrow> True)"

definition sizeRejected :: "FormData \<Rightarrow> bool" where
  "sizeRejected fd \<longleftrightarrow>
     (case get_file fd of
        Some (FileEntry f) \<Rightarrow> file_size f > maxSize
      | _ \<Rightarrow> False)"

definition directoryRejected :: "FormData \<Rightarrow> bool" where
  "directoryRejected fd \<longleftrightarrow> directoryOf fd \<notin> StringEntry ` set allowedDirectories"

definition checks :: "FormData \<Rightarrow> (bool \<times> NextResponse) list" where
  "checks fd =
     [(fileMissing fd, MissingFile), (typeRejected fd, InvalidType),
      (sizeRejected fd, TooLarge), (directoryRejected fd, InvalidDirectory)]"

section \<open>Example requests\<close>

text \<open>
  Concrete inputs on which the theorems below are run: a small PNG, a PDF of 20 MB
  sent to an unknown directory, a PNG of a chosen size, the error thrown by the
  n-th attempt, an environment that selects the object store with the first
  \<open>k\<close> attempts failing, and one that selects the blob store likewise.
\<close>

definition photo :: File where
  "photo = \<lparr>file_name = js ''My Photo.PNG'', file_type = js ''image/png'', file_size = 2048\<rparr>"

definition photoUpload :: "entry option \<Rightarrow> FormData" where
  "photoUpload dir = \<lparr>get_file = Some (FileEntry photo), get_directory = dir\<rparr>"

definition scan :: File where
  "scan = \<lparr>file_name = js ''scan.pdf'', file_type = js ''application/pdf'', file_size = 20000000\<rparr>"

definition scanUpload :: FormData where
  "scanUpload = \<lparr>get_file = Some (FileEntry scan), get_directory = Some (StringEntry (js ''tmp''))\<rparr>"

definition failure :: "nat \<Rightarrow> thrown" where
  "failure n = Error (js ''attempt '' @ digits (Suc n) @ js '' timed out'')"

definition gcsEnv :: "nat \<Rightarrow> env" where
  "gcsEnv k =
     \<lparr>GCS_BUCKET_NAME = Some (js ''bkt''), BLOB_READ_WRITE_TOKEN = None, storageClient = True,
      Date_now = 1700000000000,
      blob_save = (\<lambda>n. if n < k then SaveThrew (failure n) else Saved),
      put = (\<lambda>n. PutThrew NonError)\<rparr>"

definition blobEnv :: "nat \<Rightarrow> env" where
  "blobEnv k =
     \<lparr>GCS_BUCKET_NAME = None, BLOB_READ_WRITE_TOKEN = Some (js ''tok''), storageClient = True,
      Date_now = 1700000000000,
      blob_save = (\<lambda>n. Saved),
      put = (\<lambda>n. if n < k then PutThrew (failure n)
                  else PutResolved (js ''https://blob.example/general/photo.png''))\<rparr>"

definition sizedUpload :: "nat \<Rightarrow> FormData" where
  "sizedUpload n = \<lparr>get_file = Some (FileEntry (photo\<lparr>file_size := n\<rparr>)), get_directory = None\<rparr>"

section \<open>The sanitizer\<close>

lemma isKept_not_isWhiteSpace: "isKept c \<Longrightarrow> \<not> isWhiteSpace c"
  unfolding isKept_def isWhiteSpace_def by (auto simp: word_le_nat_alt)

lemma isKept_ascii: "isKept c \<Longrightarrow> c < 0x80"
  unfolding isKept_def by (auto simp: word_le_nat_alt word_less_nat_alt)

lemma upper_shift:
  "0x41 \<le> c \<Longrightarrow> c \<le> 0x5A \<Longrightarrow> 0x61 \<le> c + 0x20 \<and> c + 0x20 \<le> (0x7A::16 word)"
  by (simp add: word_le_nat_alt unat_word_ariths)

lemma lowerASCII_isKept: "isKept c \<Longrightarrow> isLowerClean (lowerASCII c)"
  unfolding isKept_def isLowerClean_def lowerASCII_def using upper_shift [of c]
  by (auto simp: word_le_nat_alt)

lemma isLowerClean_isKept: "isLowerClean c \<Longrightarrow> isKept c"
  unfolding isKept_def isLowerClean_def by auto

lemma lowerASCII_isLowerClean: "isLowerClean c \<Longrightarrow> lowerASCII c = c"
  unfolding isLowerClean_def lowerASCII_def by (auto simp: word_le_nat_alt)

lemma replaceWhiteSpaceRuns_id:
  "list_all (\<lambda>c. \<not> isWhiteSpace c) s \<Longrightarrow> replaceWhiteSpaceRuns s = s"
  by (induction s) auto

lemma toLowerCase_kept:
  "list_all isKept s \<Longrightarrow> toLowerCase unicodeLower s = map lowerASCII s"
  unfolding toLowerCase_def by (auto simp: list_all_iff isKept_ascii)

lemma sanitizedFileName_clean: "list_all isLowerClean (sanitizedFileName unicodeLower name)"
proof -
  have "list_all isKept (removeSpecialCharacters (replaceWhiteSpaceRuns name))"
    by (simp add: removeSpecialCharacters_def list_all_iff)
  then show ?thesis
    unfolding sanitizedFileName_def
    by (simp add: toLowerCase_kept list_all_iff lowerASCII_isKept)
qed

lemma sanitizedFileName_fixes_clean:
  assumes "list_all isLowerClean s"
  shows "sanitizedFileName unicodeLower s = s"
proof -
  have kept: "list_all isKept s"
    using assms by (auto simp: list_all_iff isLowerClean_isKept)
  then have "replaceWhiteSpaceRuns s = s"
    by (intro replaceWhiteSpaceRuns_id) (auto simp: list_all_iff isKept_not_isWhiteSpace)
  moreover have "removeSpecialCharacters s = s"
    using kept by (simp add: removeSpecialCharacters_def list_all_iff)
  moreover have "map lowerASCII s = s"
    using assms by (induction s) (auto simp: lowerASCII_isLowerClean)
  ultimately show ?thesis
    unfolding sanitizedFileName_def using kept by (simp add: toLowerCase_kept)
qed

text \<open>
  C8. Sanitizing is idempotent: for every file name, sanitizing the sanitized name
  (white-space runs to hyphens, code units outside \<open>[a-zA-Z0-9.-]\<close> dropped, lower case)
  gives the sanitized name again.
\<close>

theorem sanitizedFileName_idempotent:
  "sanitizedFileName unicodeLower (sanitizedFileName unicodeLower s)
     = sanitizedFileName unicodeLower s"
  by (rule sanitizedFileName_fixes_clean) (rule sanitizedFileName_clean)

section \<open>The retry loop and the two handlers, case by case\<close>

lemma js_eq_Nil: "js s = [] \<longleftrightarrow> s = []"
  by (simp add: js_def)

lemma retryLoop_3:
  "retryLoop attempt ev 3 0 =
     (case attempt 0 of
        Inr v \<Rightarrow> ([ev], Inr (Some v))
      | Inl t0 \<Rightarrow>
          (case attempt 1 of
             Inr v \<Rightarrow> ([ev, Sleep 1000, ev], Inr (Some v))
           | Inl t1 \<Rightarrow>
               (case attempt 2 of
                  Inr v \<Rightarrow> ([ev, Sleep 1000, ev, Sleep 1000, ev], Inr (Some v))
                | Inl t2 \<Rightarrow> ([ev, Sleep 1000, ev, Sleep 1000, ev], Inl t2))))"
  by (simp add: numeral_3_eq_3 numeral_2_eq_2 split: sum.splits)

lemma uploadToGCS_cases:
  "uploadToGCS e b k f ct =
     (let w = GcsSave b k ct (Some True);
          ok = Inr (NextResponse_json
                 (UploadBody (js ''https://storage.googleapis.com/'' @ b @ js ''/'' @ k) k (Some (js ''gcs''))) None)
      in case blob_save e 0 of
           Saved \<Rightarrow> ([w], ok)
         | SaveThrew t0 \<Rightarrow>
             (case blob_save e 1 of
                Saved \<Rightarrow> ([w, Sleep 1000, w], ok)
              | SaveThrew t1 \<Rightarrow>
                  (case blob_save e 2 of
                     Saved \<Rightarrow> ([w, Sleep 1000, w, Sleep 1000, w], ok)
                   | SaveThrew t2 \<Rightarrow> ([w, Sleep 1000, w, Sleep 1000, w], Inl t2))))"
  unfolding uploadToGCS_def retryLoop_3 Let_def
  by (simp add: js_eq_Nil split: save_outcome.splits)

lemma uploadToVercelBlob_cases:
  "uploadToVercelBlob e k f =
     (if BLOB_READ_WRITE_TOKEN e = None \<or> BLOB_READ_WRITE_TOKEN e = Some []
      then ([], Inr (NextResponse_json
              (ErrorBody (js ''Server configuration error: Neither GCS nor Vercel Blob is configured properly'') None)
              (Some 500)))
      else
        let w = BlobPut k (the (BLOB_READ_WRITE_TOKEN e));
            ok = (\<lambda>u. Inr (NextResponse_json (UploadBody u k (Some (js ''vercel-blob''))) None))
        in case put e 0 of
             PutResolved u \<Rightarrow> ([w], ok u)
           | PutThrew t0 \<Rightarrow>
               (case put e 1 of
                  PutResolved u \<Rightarrow> ([w, Sleep 1000, w], ok u)
                | PutThrew t1 \<Rightarrow>
                    (case put e 2 of
                       PutResolved u \<Rightarrow> ([w, Sleep 1000, w, Sleep 1000, w], ok u)
                     | PutThrew t2 \<Rightarrow> ([w, Sleep 1000, w, Sleep 1000, w], Inl t2))))"
  unfolding uploadToVercelBlob_def retryLoop_3 Let_def
  by (simp split: put_outcome.splits)

lemma POST_rejected: "validate fd = Inl r \<Longrightarrow> POST e (Inr fd) = ([], r)"
  by (simp add: POST_def POST_try_def)

lemma POST_gcs_rejected: "validate fd = Inl r \<Longrightarrow> POST_gcs L e (Inr fd) = ([], r)"
  by (simp add: POST_gcs_def POST_gcs_try_def)

lemma POST_accepted:
  "validate fd = Inr (f, d) \<Longrightarrow>
   POST e (Inr fd) =
     (case (if useGCS e
            then uploadToGCS e (the (GCS_BUCKET_NAME e))
                   (d @ js ''/'' @ numberToString (Date_now e) @ js ''-'' @ file_name f) f (file_type f)
            else uploadToVercelBlob e
                   (d @ js ''/'' @ numberToString (Date_now e) @ js ''-'' @ file_name f) f) of
        (evs, Inr response) \<Rightarrow> (evs, response)
      | (evs, Inl err) \<Rightarrow> (evs, uploadFailed err))"
  by (simp add: POST_def POST_try_def compressImageIfNeeded_def Let_def)

lemma POST_gcs_accepted:
  "validate fd = Inr (f, d) \<Longrightarrow>
   POST_gcs L e (Inr fd) =
     (if GCS_BUCKET_NAME e = None \<or> GCS_BUCKET_NAME e = Some []
      then ([], NextResponse_json
              (ErrorBody (js ''Server configuration error: GCS_BUCKET_NAME not set'') None) (Some 500))
      else
        let b = the (GCS_BUCKET_NAME e);
            k = d @ js ''/'' @ numberToString (Date_now e) @ js ''-'' @ sanitizedFileName L (file_name f);
            w = GcsSave b k (file_type f) None;
            ok = NextResponse_json
                   (UploadBody (js ''https://storage.googleapis.com/'' @ b @ js ''/'' @ k) k None) None
        in case blob_save e 0 of
             Saved \<Rightarrow> ([w], ok)
           | SaveThrew t0 \<Rightarrow>
               (case blob_save e 1 of
                  Saved \<Rightarrow> ([w, Sleep 1000, w], ok)
                | SaveThrew t1 \<Rightarrow>
                    (case blob_save e 2 of
                       Saved \<Rightarrow> ([w, Sleep 1000, w, Sleep 1000, w], ok)
                     | SaveThrew t2 \<Rightarrow> ([w, Sleep 1000, w, Sleep 1000, w], uploadFailed t2))))"
  unfolding POST_gcs_def POST_gcs_try_def retryLoop_3 Let_def
  by (simp add: js_eq_Nil compressImageIfNeeded_def split: save_outcome.splits)

section \<open>The validation\<close>

lemma validate_by_checks:
  "find fst (checks fd) = Some (b, r) \<Longrightarrow> validate fd = Inl r"
  unfolding checks_def validate_def fileMissing_def typeRejected_def sizeRejected_def
    directoryRejected_def
  by (auto split: option.splits entry.splits if_splits)

lemma validate_FileEntry:
  "get_file fd = Some (FileEntry f) \<Longrightarrow>
   validate fd =
     (if file_type f \<notin> set allowedTypes then Inl InvalidType
      else if file_size f > maxSize then Inl TooLarge
      else if directoryOf fd \<notin> StringEntry ` set allowedDirectories then Inl InvalidDirectory
      else Inr (f, case directoryOf fd of StringEntry d \<Rightarrow> d))"
  unfolding validate_def by (auto split: entry.splits)

lemma validate_Inr_directory:
  "validate fd = Inr (f, d) \<Longrightarrow>
     get_file fd = Some (FileEntry f) \<and> file_type f \<in> set allowedTypes \<and> file_size f \<le> maxSize
     \<and> directoryOf fd = StringEntry d \<and> d \<in> set allowedDirectories"
  unfolding validate_def by (auto split: option.splits entry.splits if_splits)

lemma status_rejections:
  "status MissingFile = 400" "status InvalidType = 400" "status TooLarge = 400"
  "status InvalidDirectory = 400"
  by (simp_all add: MissingFile_def InvalidType_def TooLarge_def InvalidDirectory_def
        NextResponse_json_def)

lemma set_allowedTypes:
  "set allowedTypes =
     {js ''image/jpeg'', js ''image/jpg'', js ''image/png'', js ''image/webp'', js ''image/avif''}"
  by (simp add: allowedTypes_def)

lemma set_allowedDirectories:
  "set allowedDirectories =
     {js ''courses'', js ''batches'', js ''general'', js ''products'', js ''products/banner'',
      js ''category-icons'', js ''logos''}"
  by (simp add: allowedDirectories_def)

lemma general_allowed: "js ''general'' \<in> set allowedDirectories"
  by (simp add: allowedDirectories_def)

lemma status_accepted:
  "validate fd = Inr (f, d) \<Longrightarrow>
     status (snd (POST e (Inr fd))) \<in> {200, 500}
     \<and> status (snd (POST_gcs unicodeLower e (Inr fd))) \<in> {200, 500}"
  by (simp add: POST_accepted POST_gcs_accepted uploadToGCS_cases uploadToVercelBlob_cases
        uploadFailed_def NextResponse_json_def Let_def
      split: save_outcome.splits put_outcome.splits)

lemma status_200_accepted:
  assumes "status (snd (POST e (Inr fd))) = 200 \<or> status (snd (POST_gcs unicodeLower e (Inr fd))) = 200"
  shows "\<exists>f d. validate fd = Inr (f, d)"
proof (cases "validate fd")
  case (Inl r)
  then have "r \<in> {MissingFile, InvalidType, TooLarge, InvalidDirectory}"
    unfolding validate_def by (auto split: option.splits entry.splits if_splits)
  then have "status r = 400"
    by (auto simp: status_rejections)
  with Inl assms show ?thesis
    by (simp add: POST_rejected POST_gcs_rejected)
next
  case (Inr p)
  then show ?thesis by (cases p) simp
qed

lemma rejection_is_InvalidDirectory:
  "validate fd = Inl InvalidDirectory \<Longrightarrow> directoryOf fd \<notin> StringEntry ` set allowedDirectories"
proof -
  have neq: "MissingFile \<noteq> InvalidDirectory" "InvalidType \<noteq> InvalidDirectory"
    "TooLarge \<noteq> InvalidDirectory"
    by (simp_all add: MissingFile_def InvalidType_def InvalidDirectory_def TooLarge_def
          NextResponse_json_def js_def)
  assume "validate fd = Inl InvalidDirectory"
  then show ?thesis
    unfolding validate_def using neq
    by (auto split: option.splits entry.splits if_splits)
qed

section \<open>The example requests, evaluated\<close>

lemma gcsEnv_simps:
  "useGCS (gcsEnv k)" "GCS_BUCKET_NAME (gcsEnv k) = Some (js ''bkt'')" "storageClient (gcsEnv k)"
  "Date_now (gcsEnv k) = 1700000000000"
  "blob_save (gcsEnv k) n = (if n < k then SaveThrew (failure n) else Saved)"
  by (simp_all add: gcsEnv_def useGCS_def js_eq_Nil)

lemma blobEnv_simps:
  "\<not> useGCS (blobEnv k)" "GCS_BUCKET_NAME (blobEnv k) = None"
  "BLOB_READ_WRITE_TOKEN (blobEnv k) = Some (js ''tok'')"
  "Date_now (blobEnv k) = 1700000000000"
  "put (blobEnv k) n = (if n < k then PutThrew (failure n)
                        else PutResolved (js ''https://blob.example/general/photo.png''))"
  by (simp_all add: blobEnv_def useGCS_def)

lemma photo_simps:
  "file_name photo = js ''My Photo.PNG''" "file_type photo = js ''image/png''"
  "file_size photo = 2048"
  by (simp_all add: photo_def)

lemma photo_key:
  "js ''general'' @ js ''/'' @ numberToString 1700000000000 @ js ''-'' @ js ''My Photo.PNG''
     = js ''general/1700000000000-My Photo.PNG''"
  by (simp add: js_def numberToString_def digits.simps)

lemma photo_url:
  "js ''https://storage.googleapis.com/'' @ js ''bkt'' @ js ''/'' @ js ''general/1700000000000-My Photo.PNG''
     = js ''https://storage.googleapis.com/bkt/general/1700000000000-My Photo.PNG''"
  by (simp add: js_def)

lemma failure_2: "failure 2 = Error (js ''attempt 3 timed out'')"
  by (simp add: failure_def digits.simps js_def)

lemma scan_simps:
  "get_file scanUpload = Some (FileEntry scan)"
  "file_type scan \<notin> set allowedTypes" "file_size scan > maxSize"
  "directoryOf scanUpload \<notin> StringEntry ` set allowedDirectories"
  by (simp_all add: scanUpload_def scan_def allowedTypes_def maxSize_def directoryOf_def
        allowedDirectories_def js_def image_iff)

lemma validate_photoUpload:
  "validate (photoUpload None) = Inr (photo, js ''general'')"
  by (simp add: validate_def photoUpload_def photo_def directoryOf_def allowedTypes_def
        allowedDirectories_def maxSize_def js_def)

lemma validate_photoUpload_general:
  "validate (photoUpload (Some (StringEntry (js ''general'')))) = Inr (photo, js ''general'')"
  by (simp add: validate_def photoUpload_def photo_def directoryOf_def allowedTypes_def
        allowedDirectories_def maxSize_def js_def)

lemma sanitized_photo: "sanitizedFileName unicodeLower (js ''My Photo.PNG'') = js ''my-photo.png''"
  by code_simp

lemma POST_gcsEnv_photo:
  "validate fd = Inr (photo, js ''general'') \<Longrightarrow>
   POST (gcsEnv 0) (Inr fd) =
     ([GcsSave (js ''bkt'') (js ''general/1700000000000-My Photo.PNG'') (js ''image/png'') (Some True)],
      \<lparr>status = 200,
       body = UploadBody (js ''https://storage.googleapis.com/bkt/general/1700000000000-My Photo.PNG'')
                (js ''general/1700000000000-My Photo.PNG'') (Some (js ''gcs''))\<rparr>)"
  by (simp add: POST_accepted uploadToGCS_cases gcsEnv_simps photo_simps photo_key photo_url
        NextResponse_json_def)

lemma POST_blobEnv_photo:
  "POST (blobEnv 0) (Inr (photoUpload None)) =
     ([BlobPut (js ''general/1700000000000-My Photo.PNG'') (js ''tok'')],
      \<lparr>status = 200,
       body = UploadBody (js ''https://blob.example/general/photo.png'')
                (js ''general/1700000000000-My Photo.PNG'') (Some (js ''vercel-blob''))\<rparr>)"
  by (simp add: POST_accepted [OF validate_photoUpload] uploadToVercelBlob_cases blobEnv_simps
        photo_simps photo_key NextResponse_json_def js_eq_Nil)

section \<open>Rejections\<close>

text \<open>
  C4. A request with a file whose declared type is outside \<open>image/jpeg\<close>, \<open>image/jpg\<close>,
  \<open>image/png\<close>, \<open>image/webp\<close>, \<open>image/avif\<close>, or whose size is strictly greater than
  15728640 bytes, or whose directory is outside the allow-list, gets the validation error
  of the first of these checks that fails, with status 400; the trace of the request is
  empty: no write is attempted and no pause is made. Both handlers answer alike.
\<close>

theorem validation_failure_rejected:
  assumes "get_file fd = Some (FileEntry f)"
    and "file_type f \<notin> set allowedTypes \<or> file_size f > maxSize
           \<or> directoryOf fd \<notin> StringEntry ` set allowedDirectories"
  shows "POST e (Inr fd) =
           ([], if file_type f \<notin> set allowedTypes then InvalidType
                else if file_size f > maxSize then TooLarge else InvalidDirectory)
         \<and> POST_gcs unicodeLower e (Inr fd) = POST e (Inr fd)
         \<and> status (snd (POST e (Inr fd))) = 400
         \<and> set allowedTypes =
             {js ''image/jpeg'', js ''image/jpg'', js ''image/png'', js ''image/webp'',
              js ''image/avif''}
         \<and> maxSize = 15728640"
proof -
  let ?r = "if file_type f \<notin> set allowedTypes then InvalidType
            else if file_size f > maxSize then TooLarge else InvalidDirectory"
  have "validate fd = Inl ?r"
    using assms by (auto simp: validate_FileEntry)
  then have "POST e (Inr fd) = ([], ?r)" "POST_gcs unicodeLower e (Inr fd) = ([], ?r)"
    by (simp_all add: POST_rejected POST_gcs_rejected)
  moreover have "status ?r = 400"
    by (simp add: status_rejections)
  moreover have "maxSize = 15728640"
    by (simp add: maxSize_def)
  ultimately show ?thesis
    using set_allowedTypes by simp
qed

theorem validation_failure_rejected_witness:
  "get_file scanUpload = Some (FileEntry scan)
   \<and> file_type scan \<notin> set allowedTypes
   \<and> POST (gcsEnv 0) (Inr scanUpload) = ([], InvalidType)
   \<and> get_file (sizedUpload 15728641) = Some (FileEntry (photo\<lparr>file_size := 15728641\<rparr>))
   \<and> file_size (photo\<lparr>file_size := 15728641\<rparr>) > maxSize
   \<and> POST (gcsEnv 0) (Inr (sizedUpload 15728641)) = ([], TooLarge)
   \<and> get_file (photoUpload (Some (StringEntry (js ''tmp'')))) = Some (FileEntry photo)
   \<and> directoryOf (photoUpload (Some (StringEntry (js ''tmp'')))) \<notin> StringEntry ` set allowedDirectories
   \<and> POST (gcsEnv 0) (Inr (photoUpload (Some (StringEntry (js ''tmp''))))) = ([], InvalidDirectory)"
proof -
  have a: "get_file scanUpload = Some (FileEntry scan)" "file_type scan \<notin> set allowedTypes"
    using scan_simps by simp_all
  have b: "get_file (sizedUpload 15728641) = Some (FileEntry (photo\<lparr>file_size := 15728641\<rparr>))"
    "file_size (photo\<lparr>file_size := 15728641\<rparr>) > maxSize"
    "file_type (photo\<lparr>file_size := 15728641\<rparr>) \<in> set allowedTypes"
    by (simp_all add: sizedUpload_def maxSize_def photo_def allowedTypes_def)
  have c: "get_file (photoUpload (Some (StringEntry (js ''tmp'')))) = Some (FileEntry photo)"
    "directoryOf (photoUpload (Some (StringEntry (js ''tmp'')))) \<notin> StringEntry ` set allowedDirectories"
    "file_type photo \<in> set allowedTypes" "\<not> file_size photo > maxSize"
    by (simp_all add: photoUpload_def directoryOf_def allowedDirectories_def photo_def
          allowedTypes_def maxSize_def js_def image_iff)
  from validation_failure_rejected [OF a(1) disjI1 [OF a(2)], of "gcsEnv 0", THEN conjunct1]
    validation_failure_rejected [OF b(1) disjI2 [OF disjI1 [OF b(2)]], of "gcsEnv 0", THEN conjunct1]
    validation_failure_rejected [OF c(1) disjI2 [OF disjI2 [OF c(2)]], of "gcsEnv 0", THEN conjunct1]
  show ?thesis
    using a b c by simp
qed

text \<open>
  C5. The checks run in the order file missing, type, size, directory: the first
  condition of \<open>checks\<close> that holds of a request decides its rejection, whatever the later
  ones are, and the request leaves an empty trace.
\<close>

theorem first_violated_check_decides:
  "find fst (checks fd) = Some (b, r) \<Longrightarrow>
     POST e (Inr fd) = ([], r) \<and> POST_gcs unicodeLower e (Inr fd) = ([], r)"
  by (simp add: validate_by_checks POST_rejected POST_gcs_rejected)

theorem first_violated_check_decides_witness:
  "find fst (checks scanUpload) = Some (True, InvalidType)
   \<and> typeRejected scanUpload \<and> sizeRejected scanUpload \<and> directoryRejected scanUpload
   \<and> POST (gcsEnv 0) (Inr scanUpload) = ([], InvalidType)
   \<and> POST_gcs (\<lambda>s. s) (gcsEnv 0) (Inr scanUpload) = ([], InvalidType)"
proof -
  have c: "\<not> fileMissing scanUpload" "typeRejected scanUpload" "sizeRejected scanUpload"
    "directoryRejected scanUpload"
    using scan_simps
    by (simp_all add: fileMissing_def typeRejected_def sizeRejected_def directoryRejected_def)
  then have h: "find fst (checks scanUpload) = Some (True, InvalidType)"
    by (simp add: checks_def)
  from first_violated_check_decides [OF h, of "gcsEnv 0" "\<lambda>s. s"] h c show ?thesis
    by simp
qed

text \<open>
  C10. The size limit is strict: for a file of an allowed type the answer is \<open>TooLarge\<close>
  exactly when the size is greater than 15728640, and a file of exactly 15728640 bytes
  sent to an allowed directory passes the validation.
\<close>

theorem size_limit_is_strict:
  assumes "get_file fd = Some (FileEntry f)" and "file_type f \<in> set allowedTypes"
  shows "(snd (POST e (Inr fd)) = TooLarge \<longleftrightarrow> file_size f > 15728640)
         \<and> (snd (POST_gcs unicodeLower e (Inr fd)) = TooLarge \<longleftrightarrow> file_size f > 15728640)
         \<and> (file_size f = 15728640 \<and> directoryOf fd = StringEntry d \<and> d \<in> set allowedDirectories
              \<longrightarrow> validate fd = Inr (f, d))"
proof (cases "file_size f > maxSize")
  case True
  then have "validate fd = Inl TooLarge"
    using assms by (simp add: validate_FileEntry)
  then show ?thesis
    using True by (simp add: POST_rejected POST_gcs_rejected maxSize_def)
next
  case False
  have neq: "InvalidDirectory \<noteq> TooLarge"
    by (simp add: InvalidDirectory_def TooLarge_def NextResponse_json_def js_def)
  show ?thesis
  proof (cases "directoryOf fd \<notin> StringEntry ` set allowedDirectories")
    case True
    then have "validate fd = Inl InvalidDirectory"
      using assms False by (simp add: validate_FileEntry)
    then show ?thesis
      using False True neq by (auto simp: POST_rejected POST_gcs_rejected maxSize_def)
  next
    case outside: False
    then obtain d' where d': "directoryOf fd = StringEntry d'" "d' \<in> set allowedDirectories"
      by auto
    then have v: "validate fd = Inr (f, d')"
      using assms False outside by (simp add: validate_FileEntry)
    from status_accepted [OF v, of e unicodeLower]
    have "snd (POST e (Inr fd)) \<noteq> TooLarge" "snd (POST_gcs unicodeLower e (Inr fd)) \<noteq> TooLarge"
      using status_rejections(3) by auto
    then show ?thesis
      using False v d' by (auto simp: maxSize_def)
  qed
qed

theorem size_limit_is_strict_witness:
  "get_file (sizedUpload 15728640) = Some (FileEntry (photo\<lparr>file_size := 15728640\<rparr>))
   \<and> file_type (photo\<lparr>file_size := 15728640\<rparr>) \<in> set allowedTypes
   \<and> snd (POST (gcsEnv 0) (Inr (sizedUpload 15728640))) \<noteq> TooLarge
   \<and> validate (sizedUpload 15728640) = Inr (photo\<lparr>file_size := 15728640\<rparr>, js ''general'')
   \<and> snd (POST (gcsEnv 0) (Inr (sizedUpload 15728641))) = TooLarge"
proof -
  have a: "get_file (sizedUpload 15728640) = Some (FileEntry (photo\<lparr>file_size := 15728640\<rparr>))"
    "file_type (photo\<lparr>file_size := 15728640\<rparr>) \<in> set allowedTypes"
    "file_size (photo\<lparr>file_size := 15728640\<rparr>) = 15728640"
    "directoryOf (sizedUpload 15728640) = StringEntry (js ''general'')"
    by (simp_all add: sizedUpload_def photo_def allowedTypes_def directoryOf_def)
  have b: "get_file (sizedUpload 15728641) = Some (FileEntry (photo\<lparr>file_size := 15728641\<rparr>))"
    "file_type (photo\<lparr>file_size := 15728641\<rparr>) \<in> set allowedTypes"
    "file_size (photo\<lparr>file_size := 15728641\<rparr>) = 15728641"
    by (simp_all add: sizedUpload_def photo_def allowedTypes_def)
  from size_limit_is_strict [OF a(1,2), of "gcsEnv 0" "\<lambda>s. s" "js ''general''"]
    size_limit_is_strict [OF b(1,2), of "gcsEnv 0" "\<lambda>s. s" "js ''general''"]
  show ?thesis
    using a b general_allowed by simp
qed

section \<open>The directory\<close>

text \<open>
  C7. An absent directory field gives the directory \<open>general\<close>. A request that passes
  the validation, and so every request answered with status 200, has its directory among
  \<open>courses\<close>, \<open>batches\<close>, \<open>general\<close>, \<open>products\<close>, \<open>products/banner\<close>, \<open>category-icons\<close>
  and \<open>logos\<close>; a request whose file passes the earlier checks and whose directory is
  anything else is rejected with \<open>InvalidDirectory\<close>.
\<close>

theorem directory_default_and_allow_list:
  "(get_directory fd = None \<longrightarrow> directoryOf fd = StringEntry (js ''general''))
   \<and> (validate fd = Inr (f, d) \<longrightarrow>
        directoryOf fd = StringEntry d
        \<and> d \<in> {js ''courses'', js ''batches'', js ''general'', js ''products'',
                 js ''products/banner'', js ''category-icons'', js ''logos''})
   \<and> (status (snd (POST e (Inr fd))) = 200 \<or> status (snd (POST_gcs unicodeLower e (Inr fd))) = 200 \<longrightarrow>
        directoryOf fd \<in> StringEntry `
          {js ''courses'', js ''batches'', js ''general'', js ''products'',
           js ''products/banner'', js ''category-icons'', js ''logos''})
   \<and> (get_file fd = Some (FileEntry f) \<and> file_type f \<in> set allowedTypes \<and> file_size f \<le> maxSize
        \<and> directoryOf fd \<notin> StringEntry `
             {js ''courses'', js ''batches'', js ''general'', js ''products'',
              js ''products/banner'', js ''category-icons'', js ''logos''} \<longrightarrow>
        POST e (Inr fd) = ([], InvalidDirectory)
        \<and> POST_gcs unicodeLower e (Inr fd) = ([], InvalidDirectory))"
proof -
  have a: "get_directory fd = None \<longrightarrow> directoryOf fd = StringEntry (js ''general'')"
    by (simp add: directoryOf_def)
  have b: "validate fd = Inr (f, d) \<longrightarrow>
        directoryOf fd = StringEntry d \<and> d \<in> set allowedDirectories"
    using validate_Inr_directory by blast
  have c: "status (snd (POST e (Inr fd))) = 200 \<or> status (snd (POST_gcs unicodeLower e (Inr fd))) = 200 \<longrightarrow>
        directoryOf fd \<in> StringEntry ` set allowedDirectories"
    using status_200_accepted [of e fd unicodeLower] validate_Inr_directory by blast
  have d: "get_file fd = Some (FileEntry f) \<and> file_type f \<in> set allowedTypes \<and> file_size f \<le> maxSize
        \<and> directoryOf fd \<notin> StringEntry ` set allowedDirectories \<longrightarrow>
        POST e (Inr fd) = ([], InvalidDirectory)
        \<and> POST_gcs unicodeLower e (Inr fd) = ([], InvalidDirectory)"
    by (auto simp: validate_FileEntry POST_rejected POST_gcs_rejected)
  show ?thesis
    using a b c d unfolding set_allowedDirectories by blast
qed

theorem directory_default_and_allow_list_witness:
  "get_directory (photoUpload None) = None
   \<and> directoryOf (photoUpload None) = StringEntry (js ''general'')
   \<and> validate (photoUpload None) = Inr (photo, js ''general'')
   \<and> get_file (photoUpload (Some (StringEntry (js ''tmp'')))) = Some (FileEntry photo)
   \<and> file_type photo \<in> set allowedTypes \<and> file_size photo \<le> maxSize
   \<and> directoryOf (photoUpload (Some (StringEntry (js ''tmp'')))) = StringEntry (js ''tmp'')
   \<and> POST (gcsEnv 0) (Inr (photoUpload (Some (StringEntry (js ''tmp''))))) = ([], InvalidDirectory)"
proof -
  have a: "get_directory (photoUpload None) = None"
    by (simp add: photoUpload_def)
  have c: "get_file (photoUpload (Some (StringEntry (js ''tmp'')))) = Some (FileEntry photo)"
    "directoryOf (photoUpload (Some (StringEntry (js ''tmp'')))) = StringEntry (js ''tmp'')"
    "file_type photo \<in> set allowedTypes" "file_size photo \<le> maxSize"
    by (simp_all add: photoUpload_def directoryOf_def photo_def allowedTypes_def maxSize_def js_eq_Nil)
  have d: "StringEntry (js ''tmp'') \<notin> StringEntry `
          {js ''courses'', js ''batches'', js ''general'', js ''products'',
           js ''products/banner'', js ''category-icons'', js ''logos''}"
    by (simp add: js_def image_iff)
  from directory_default_and_allow_list [of "photoUpload None" photo "js ''general''" "gcsEnv 0" "\<lambda>s. s"]
    directory_default_and_allow_list [of "photoUpload (Some (StringEntry (js ''tmp'')))" photo
      "js ''general''" "gcsEnv 0" "\<lambda>s. s"]
  show ?thesis
    using a c d validate_photoUpload by simp
qed

text \<open>
  C9. A directory field that is present and empty is not rejected as
  \<open>InvalidDirectory\<close>: the directory is \<open>general\<close>, the handlers answer as they do when the
  field holds \<open>general\<close>, and a file that passes the other checks is uploaded under
  \<open>general\<close>.
\<close>

theorem empty_directory_defaults_to_general:
  assumes "get_directory fd = Some (StringEntry [])"
  shows "directoryOf fd = StringEntry (js ''general'')
         \<and> snd (POST e (Inr fd)) \<noteq> InvalidDirectory
         \<and> snd (POST_gcs unicodeLower e (Inr fd)) \<noteq> InvalidDirectory
         \<and> POST e (Inr fd) = POST e (Inr (fd\<lparr>get_directory := Some (StringEntry (js ''general''))\<rparr>))
         \<and> POST_gcs unicodeLower e (Inr fd)
             = POST_gcs unicodeLower e (Inr (fd\<lparr>get_directory := Some (StringEntry (js ''general''))\<rparr>))
         \<and> (get_file fd = Some (FileEntry f) \<and> file_type f \<in> set allowedTypes \<and> file_size f \<le> maxSize
               \<longrightarrow> validate fd = Inr (f, js ''general''))"
proof -
  have dir: "directoryOf fd = StringEntry (js ''general'')"
    using assms by (simp add: directoryOf_def)
  have "directoryOf (fd\<lparr>get_directory := Some (StringEntry (js ''general''))\<rparr>) = directoryOf fd"
    using dir by (simp add: directoryOf_def js_eq_Nil)
  then have same: "validate fd = validate (fd\<lparr>get_directory := Some (StringEntry (js ''general''))\<rparr>)"
    by (simp add: validate_def split: option.splits entry.splits)
  have eq: "POST e (Inr fd) = POST e (Inr (fd\<lparr>get_directory := Some (StringEntry (js ''general''))\<rparr>))"
    "POST_gcs unicodeLower e (Inr fd)
       = POST_gcs unicodeLower e (Inr (fd\<lparr>get_directory := Some (StringEntry (js ''general''))\<rparr>))"
    using same by (simp_all add: POST_def POST_try_def POST_gcs_def POST_gcs_try_def)
  have notdir: "validate fd \<noteq> Inl InvalidDirectory"
    using rejection_is_InvalidDirectory [of fd] dir general_allowed by auto
  have "snd (POST e (Inr fd)) \<noteq> InvalidDirectory \<and> snd (POST_gcs unicodeLower e (Inr fd)) \<noteq> InvalidDirectory"
  proof (cases "validate fd")
    case (Inl r)
    then show ?thesis using notdir by (auto simp: POST_rejected POST_gcs_rejected)
  next
    case (Inr p)
    obtain f' d' where "p = (f', d')" by (cases p)
    with Inr status_accepted [of fd f' d' e unicodeLower] show ?thesis
      using status_rejections(4) by auto
  qed
  moreover have "get_file fd = Some (FileEntry f) \<and> file_type f \<in> set allowedTypes \<and> file_size f \<le> maxSize
               \<longrightarrow> validate fd = Inr (f, js ''general'')"
    using dir general_allowed by (auto simp: validate_FileEntry)
  ultimately show ?thesis
    using dir eq by simp
qed

theorem empty_directory_defaults_to_general_witness:
  "get_directory (photoUpload (Some (StringEntry []))) = Some (StringEntry [])
   \<and> directoryOf (photoUpload (Some (StringEntry []))) = StringEntry (js ''general'')
   \<and> snd (POST (gcsEnv 0) (Inr (photoUpload (Some (StringEntry []))))) \<noteq> InvalidDirectory
   \<and> POST (gcsEnv 0) (Inr (photoUpload (Some (StringEntry [])))) =
       ([GcsSave (js ''bkt'') (js ''general/1700000000000-My Photo.PNG'') (js ''image/png'') (Some True)],
        \<lparr>status = 200,
         body = UploadBody (js ''https://storage.googleapis.com/bkt/general/1700000000000-My Photo.PNG'')
                  (js ''general/1700000000000-My Photo.PNG'') (Some (js ''gcs''))\<rparr>)"
proof -
  have h: "get_directory (photoUpload (Some (StringEntry []))) = Some (StringEntry [])"
    by (simp add: photoUpload_def)
  have u: "(photoUpload (Some (StringEntry [])))\<lparr>get_directory := Some (StringEntry (js ''general''))\<rparr>
             = photoUpload (Some (StringEntry (js ''general'')))"
    by (simp add: photoUpload_def)
  from empty_directory_defaults_to_general [OF h, of "gcsEnv 0" "\<lambda>s. s" photo]
  show ?thesis
    using h
    by (simp add: u POST_gcsEnv_photo [OF validate_photoUpload_general] InvalidDirectory_def
          NextResponse_json_def)
qed

section \<open>The backends and the retries\<close>

lemma less_3_cases: "k < (3::nat) \<Longrightarrow> k = 0 \<or> k = 1 \<or> k = 2"
  by arith

lemma concat_replicate_small:
  "concat (replicate 0 [a, b]) = []"
  "concat (replicate 1 [a, b]) = [a, b]"
  "concat (replicate 2 [a, b]) = [a, b, a, b]"
  by (simp_all add: numeral_2_eq_2)

lemma fails_before:
  "(\<forall>i<(0::nat). P i) \<longleftrightarrow> True"
  "(\<forall>i<(1::nat). P i) \<longleftrightarrow> P 0"
  "(\<forall>i<(2::nat). P i) \<longleftrightarrow> P 0 \<and> P 1"
  by (auto simp: less_2_cases_iff)

text \<open>
  C6. For a request that passes the validation: when the bucket name is set (not empty,
  as \<open>bucketName && storage\<close> tests it) and the client exists, a write to the object store
  is attempted, every write of the request goes there, and a response with status 200
  carries \<open>https://storage.googleapis.com/{bucket}/{key}\<close>. Otherwise every write goes to
  the blob store (one is attempted when its token is configured), and a response with
  status 200 carries the URL that \<open>put\<close> resolved to.
\<close>

theorem backend_selection:
  assumes "validate fd = Inr (f, d)"
    and "key = d @ js ''/'' @ numberToString (Date_now e) @ js ''-'' @ file_name f"
    and "POST e (Inr fd) = (evs, r)"
  shows "(GCS_BUCKET_NAME e = Some b \<and> b \<noteq> [] \<and> storageClient e \<longrightarrow>
            GcsSave b key (file_type f) (Some True) \<in> set evs
            \<and> (\<forall>ev \<in> set evs. isWrite ev \<longrightarrow> ev = GcsSave b key (file_type f) (Some True))
            \<and> (status r = 200 \<longrightarrow>
                 body r = UploadBody (js ''https://storage.googleapis.com/'' @ b @ js ''/'' @ key) key
                            (Some (js ''gcs''))))
         \<and> (\<not> (\<exists>b'. GCS_BUCKET_NAME e = Some b' \<and> b' \<noteq> [] \<and> storageClient e) \<longrightarrow>
              (\<forall>ev \<in> set evs. isWrite ev \<longrightarrow>
                 (\<exists>tok. BLOB_READ_WRITE_TOKEN e = Some tok \<and> ev = BlobPut key tok))
              \<and> (BLOB_READ_WRITE_TOKEN e = Some tok \<and> tok \<noteq> [] \<longrightarrow> BlobPut key tok \<in> set evs)
              \<and> (status r = 200 \<longrightarrow>
                   (\<exists>n u. put e n = PutResolved u
                      \<and> body r = UploadBody u key (Some (js ''vercel-blob'')))))"
proof -
  have gcs: "GcsSave b key (file_type f) (Some True) \<in> set evs
            \<and> (\<forall>ev \<in> set evs. isWrite ev \<longrightarrow> ev = GcsSave b key (file_type f) (Some True))
            \<and> (status r = 200 \<longrightarrow>
                 body r = UploadBody (js ''https://storage.googleapis.com/'' @ b @ js ''/'' @ key) key
                            (Some (js ''gcs'')))"
    if "GCS_BUCKET_NAME e = Some b" "b \<noteq> []" "storageClient e"
  proof -
    have "useGCS e" using that by (simp add: useGCS_def)
    then show ?thesis
      using assms that
      by (auto simp: POST_accepted uploadToGCS_cases uploadFailed_def NextResponse_json_def
            Let_def split: save_outcome.splits)
  qed
  have blob: "(\<forall>ev \<in> set evs. isWrite ev \<longrightarrow>
                 (\<exists>tok. BLOB_READ_WRITE_TOKEN e = Some tok \<and> ev = BlobPut key tok))
              \<and> (BLOB_READ_WRITE_TOKEN e = Some tok \<and> tok \<noteq> [] \<longrightarrow> BlobPut key tok \<in> set evs)
              \<and> (status r = 200 \<longrightarrow>
                   (\<exists>n u. put e n = PutResolved u
                      \<and> body r = UploadBody u key (Some (js ''vercel-blob''))))"
    if "\<not> (\<exists>b'. GCS_BUCKET_NAME e = Some b' \<and> b' \<noteq> [] \<and> storageClient e)"
  proof -
    have "\<not> useGCS e" using that by (auto simp: useGCS_def)
    then show ?thesis
      using assms
      by (auto simp: POST_accepted uploadToVercelBlob_cases uploadFailed_def NextResponse_json_def
            Let_def split: put_outcome.splits if_splits)
  qed
  show ?thesis
    using gcs blob by blast
qed

theorem backend_selection_witness:
  "validate (photoUpload None) = Inr (photo, js ''general'')
   \<and> GCS_BUCKET_NAME (gcsEnv 0) = Some (js ''bkt'') \<and> js ''bkt'' \<noteq> [] \<and> storageClient (gcsEnv 0)
   \<and> body (snd (POST (gcsEnv 0) (Inr (photoUpload None)))) =
       UploadBody (js ''https://storage.googleapis.com/bkt/general/1700000000000-My Photo.PNG'')
         (js ''general/1700000000000-My Photo.PNG'') (Some (js ''gcs''))
   \<and> GcsSave (js ''bkt'') (js ''general/1700000000000-My Photo.PNG'') (js ''image/png'') (Some True)
       \<in> set (fst (POST (gcsEnv 0) (Inr (photoUpload None))))
   \<and> GCS_BUCKET_NAME (blobEnv 0) = None
   \<and> BlobPut (js ''general/1700000000000-My Photo.PNG'') (js ''tok'')
       \<in> set (fst (POST (blobEnv 0) (Inr (photoUpload None))))
   \<and> (\<exists>n. put (blobEnv 0) n = PutResolved (js ''https://blob.example/general/photo.png''))
   \<and> body (snd (POST (blobEnv 0) (Inr (photoUpload None)))) =
       UploadBody (js ''https://blob.example/general/photo.png'')
         (js ''general/1700000000000-My Photo.PNG'') (Some (js ''vercel-blob''))"
proof -
  have k: "js ''general/1700000000000-My Photo.PNG''
             = js ''general'' @ js ''/'' @ numberToString (Date_now (gcsEnv 0)) @ js ''-'' @ file_name photo"
    "js ''general/1700000000000-My Photo.PNG''
             = js ''general'' @ js ''/'' @ numberToString (Date_now (blobEnv 0)) @ js ''-'' @ file_name photo"
    by (simp_all add: gcsEnv_simps blobEnv_simps photo_simps photo_key)
  have s: "status (snd (POST (gcsEnv 0) (Inr (photoUpload None)))) = 200"
    "status (snd (POST (blobEnv 0) (Inr (photoUpload None)))) = 200"
    by (simp_all add: POST_gcsEnv_photo [OF validate_photoUpload] POST_blobEnv_photo)
  have c: "GCS_BUCKET_NAME (gcsEnv 0) = Some (js ''bkt'')" "js ''bkt'' \<noteq> []" "storageClient (gcsEnv 0)"
    "GCS_BUCKET_NAME (blobEnv 0) = None" "BLOB_READ_WRITE_TOKEN (blobEnv 0) = Some (js ''tok'')"
    "js ''tok'' \<noteq> []"
    by (simp_all add: gcsEnv_simps blobEnv_simps js_eq_Nil)
  have p: "\<exists>n. put (blobEnv 0) n = PutResolved (js ''https://blob.example/general/photo.png'')"
    by (simp add: blobEnv_simps)
  from backend_selection [where b = "js ''bkt''", OF validate_photoUpload k(1) surjective_pairing]
  have 1: "body (snd (POST (gcsEnv 0) (Inr (photoUpload None)))) =
       UploadBody (js ''https://storage.googleapis.com/bkt/general/1700000000000-My Photo.PNG'')
         (js ''general/1700000000000-My Photo.PNG'') (Some (js ''gcs''))
     \<and> GcsSave (js ''bkt'') (js ''general/1700000000000-My Photo.PNG'') (js ''image/png'') (Some True)
       \<in> set (fst (POST (gcsEnv 0) (Inr (photoUpload None))))"
    using c s(1) by (simp add: photo_simps photo_url)
  from backend_selection [where tok = "js ''tok''", OF validate_photoUpload k(2) surjective_pairing]
  have 2: "BlobPut (js ''general/1700000000000-My Photo.PNG'') (js ''tok'')
       \<in> set (fst (POST (blobEnv 0) (Inr (photoUpload None))))"
    using c by simp
  have 3: "body (snd (POST (blobEnv 0) (Inr (photoUpload None)))) =
       UploadBody (js ''https://blob.example/general/photo.png'')
         (js ''general/1700000000000-My Photo.PNG'') (Some (js ''vercel-blob''))"
    by (simp add: POST_blobEnv_photo)
  show ?thesis
    using validate_photoUpload c p 1 2 3 by simp
qed

text \<open>
  C2. For a request that passes the validation, when the first \<open>k\<close> attempts fail and
  attempt \<open>k + 1\<close> succeeds (\<open>k\<close> is 0, 1 or 2), the trace is \<open>k\<close> times a write followed
  by a pause of 1000 ms, then the successful write, and nothing more; the response has
  status 200 with the resulting URL. With \<open>k = 2\<close>: exactly three writes, a pause of one
  second between consecutive ones. This holds on the object store and on the blob store.
\<close>

theorem success_stops_the_retries:
  assumes "validate fd = Inr (f, d)"
    and "key = d @ js ''/'' @ numberToString (Date_now e) @ js ''-'' @ file_name f"
    and "k < 3"
  shows "(useGCS e \<and> GCS_BUCKET_NAME e = Some b
            \<and> (\<forall>i<k. \<exists>t. blob_save e i = SaveThrew t) \<and> blob_save e k = Saved \<longrightarrow>
          POST e (Inr fd) =
            (concat (replicate k [GcsSave b key (file_type f) (Some True), Sleep 1000])
               @ [GcsSave b key (file_type f) (Some True)],
             \<lparr>status = 200,
              body = UploadBody (js ''https://storage.googleapis.com/'' @ b @ js ''/'' @ key) key
                       (Some (js ''gcs''))\<rparr>))
         \<and> (\<not> useGCS e \<and> BLOB_READ_WRITE_TOKEN e = Some tok \<and> tok \<noteq> []
              \<and> (\<forall>i<k. \<exists>t. put e i = PutThrew t) \<and> put e k = PutResolved u \<longrightarrow>
            POST e (Inr fd) =
              (concat (replicate k [BlobPut key tok, Sleep 1000]) @ [BlobPut key tok],
               \<lparr>status = 200, body = UploadBody u key (Some (js ''vercel-blob''))\<rparr>))"
proof -
  from \<open>k < 3\<close> have k: "k = 0 \<or> k = 1 \<or> k = 2"
    by (rule less_3_cases)
  have gcs: "POST e (Inr fd) =
            (concat (replicate k [GcsSave b key (file_type f) (Some True), Sleep 1000])
               @ [GcsSave b key (file_type f) (Some True)],
             \<lparr>status = 200,
              body = UploadBody (js ''https://storage.googleapis.com/'' @ b @ js ''/'' @ key) key
                       (Some (js ''gcs''))\<rparr>)"
    if "useGCS e" "GCS_BUCKET_NAME e = Some b" "\<forall>i<k. \<exists>t. blob_save e i = SaveThrew t"
      "blob_save e k = Saved"
    using k that assms(1,2)
    by (elim disjE; simp only: fails_before concat_replicate_small)
       (auto simp: POST_accepted uploadToGCS_cases NextResponse_json_def Let_def)
  have blob: "POST e (Inr fd) =
              (concat (replicate k [BlobPut key tok, Sleep 1000]) @ [BlobPut key tok],
               \<lparr>status = 200, body = UploadBody u key (Some (js ''vercel-blob''))\<rparr>)"
    if "\<not> useGCS e" "BLOB_READ_WRITE_TOKEN e = Some tok" "tok \<noteq> []"
      "\<forall>i<k. \<exists>t. put e i = PutThrew t" "put e k = PutResolved u"
    using k that assms(1,2)
    by (elim disjE; simp only: fails_before concat_replicate_small)
       (auto simp: POST_accepted uploadToVercelBlob_cases NextResponse_json_def Let_def)
  show ?thesis
    using gcs blob by blast
qed

theorem success_stops_the_retries_witness:
  "validate (photoUpload None) = Inr (photo, js ''general'')
   \<and> blob_save (gcsEnv 2) 0 = SaveThrew (failure 0) \<and> blob_save (gcsEnv 2) 1 = SaveThrew (failure 1)
   \<and> blob_save (gcsEnv 2) 2 = Saved
   \<and> POST (gcsEnv 2) (Inr (photoUpload None)) =
       ([GcsSave (js ''bkt'') (js ''general/1700000000000-My Photo.PNG'') (js ''image/png'') (Some True),
         Sleep 1000,
         GcsSave (js ''bkt'') (js ''general/1700000000000-My Photo.PNG'') (js ''image/png'') (Some True),
         Sleep 1000,
         GcsSave (js ''bkt'') (js ''general/1700000000000-My Photo.PNG'') (js ''image/png'') (Some True)],
        \<lparr>status = 200,
         body = UploadBody (js ''https://storage.googleapis.com/bkt/general/1700000000000-My Photo.PNG'')
                  (js ''general/1700000000000-My Photo.PNG'') (Some (js ''gcs''))\<rparr>)
   \<and> length (filter isWrite (fst (POST (gcsEnv 2) (Inr (photoUpload None))))) = 3
   \<and> put (blobEnv 2) 0 = PutThrew (failure 0) \<and> put (blobEnv 2) 1 = PutThrew (failure 1)
   \<and> put (blobEnv 2) 2 = PutResolved (js ''https://blob.example/general/photo.png'')
   \<and> POST (blobEnv 2) (Inr (photoUpload None)) =
       ([BlobPut (js ''general/1700000000000-My Photo.PNG'') (js ''tok''), Sleep 1000,
         BlobPut (js ''general/1700000000000-My Photo.PNG'') (js ''tok''), Sleep 1000,
         BlobPut (js ''general/1700000000000-My Photo.PNG'') (js ''tok'')],
        \<lparr>status = 200,
         body = UploadBody (js ''https://blob.example/general/photo.png'')
                  (js ''general/1700000000000-My Photo.PNG'') (Some (js ''vercel-blob''))\<rparr>)
   \<and> POST (blobEnv 0) (Inr (photoUpload None)) =
       ([BlobPut (js ''general/1700000000000-My Photo.PNG'') (js ''tok'')],
        \<lparr>status = 200,
         body = UploadBody (js ''https://blob.example/general/photo.png'')
                  (js ''general/1700000000000-My Photo.PNG'') (Some (js ''vercel-blob''))\<rparr>)"
proof -
  have k: "js ''general/1700000000000-My Photo.PNG''
             = js ''general'' @ js ''/'' @ numberToString (Date_now (gcsEnv 2)) @ js ''-'' @ file_name photo"
    "js ''general/1700000000000-My Photo.PNG''
             = js ''general'' @ js ''/'' @ numberToString (Date_now (blobEnv 2)) @ js ''-'' @ file_name photo"
    "js ''general/1700000000000-My Photo.PNG''
             = js ''general'' @ js ''/'' @ numberToString (Date_now (blobEnv 0)) @ js ''-'' @ file_name photo"
    by (simp_all add: gcsEnv_simps blobEnv_simps photo_simps photo_key)
  have g: "blob_save (gcsEnv 2) 0 = SaveThrew (failure 0)" "blob_save (gcsEnv 2) 1 = SaveThrew (failure 1)"
    "blob_save (gcsEnv 2) 2 = Saved" "\<forall>i<2. \<exists>t. blob_save (gcsEnv 2) i = SaveThrew t"
    by (simp_all add: gcsEnv_simps)
  have b: "put (blobEnv 2) 0 = PutThrew (failure 0)" "put (blobEnv 2) 1 = PutThrew (failure 1)"
    "put (blobEnv 2) 2 = PutResolved (js ''https://blob.example/general/photo.png'')"
    "\<forall>i<2. \<exists>t. put (blobEnv 2) i = PutThrew t"
    "put (blobEnv 0) 0 = PutResolved (js ''https://blob.example/general/photo.png'')"
    by (simp_all add: blobEnv_simps)
  have two: "(2::nat) < 3" and zero: "(0::nat) < 3"
    by simp_all
  from success_stops_the_retries [where b = "js ''bkt''", OF validate_photoUpload k(1) two,
      THEN conjunct1]
  have 1: "POST (gcsEnv 2) (Inr (photoUpload None)) =
       ([GcsSave (js ''bkt'') (js ''general/1700000000000-My Photo.PNG'') (js ''image/png'') (Some True),
         Sleep 1000,
         GcsSave (js ''bkt'') (js ''general/1700000000000-My Photo.PNG'') (js ''image/png'') (Some True),
         Sleep 1000,
         GcsSave (js ''bkt'') (js ''general/1700000000000-My Photo.PNG'') (js ''image/png'') (Some True)],
        \<lparr>status = 200,
         body = UploadBody (js ''https://storage.googleapis.com/bkt/general/1700000000000-My Photo.PNG'')
                  (js ''general/1700000000000-My Photo.PNG'') (Some (js ''gcs''))\<rparr>)"
    using g(3,4) by (simp add: gcsEnv_simps photo_simps photo_url concat_replicate_small)
  from success_stops_the_retries [where tok = "js ''tok''"
      and u = "js ''https://blob.example/general/photo.png''", OF validate_photoUpload k(2) two,
      THEN conjunct2]
  have 2: "POST (blobEnv 2) (Inr (photoUpload None)) =
       ([BlobPut (js ''general/1700000000000-My Photo.PNG'') (js ''tok''), Sleep 1000,
         BlobPut (js ''general/1700000000000-My Photo.PNG'') (js ''tok''), Sleep 1000,
         BlobPut (js ''general/1700000000000-My Photo.PNG'') (js ''tok'')],
        \<lparr>status = 200,
         body = UploadBody (js ''https://blob.example/general/photo.png'')
                  (js ''general/1700000000000-My Photo.PNG'') (Some (js ''vercel-blob''))\<rparr>)"
    using b(3,4) by (simp add: blobEnv_simps js_eq_Nil concat_replicate_small)
  from success_stops_the_retries [where tok = "js ''tok''"
      and u = "js ''https://blob.example/general/photo.png''", OF validate_photoUpload k(3) zero,
      THEN conjunct2]
  have 3: "POST (blobEnv 0) (Inr (photoUpload None)) =
       ([BlobPut (js ''general/1700000000000-My Photo.PNG'') (js ''tok'')],
        \<lparr>status = 200,
         body = UploadBody (js ''https://blob.example/general/photo.png'')
                  (js ''general/1700000000000-My Photo.PNG'') (Some (js ''vercel-blob''))\<rparr>)"
    using b(5) by (simp add: blobEnv_simps js_eq_Nil)
  show ?thesis
    using validate_photoUpload g(1,2,3) b(1,2,3) 2 3 unfolding 1 by simp
qed

text \<open>
  C3. For a request that passes the validation, when all three attempts fail the trace
  is three writes with a pause of 1000 ms between them, whatever a fourth attempt would
  have done, and the response has status 500 with the error \<open>Failed to upload file\<close> and
  as details the message of the third error (\<open>Unknown error\<close> when the value thrown is
  no \<open>Error\<close>).
\<close>

theorem exhausted_retries_give_500:
  assumes "validate fd = Inr (f, d)"
    and "key = d @ js ''/'' @ numberToString (Date_now e) @ js ''-'' @ file_name f"
    and "failed = \<lparr>status = 500,
                   body = ErrorBody (js ''Failed to upload file'')
                            (Some (case tc of Error m \<Rightarrow> m | NonError \<Rightarrow> js ''Unknown error''))\<rparr>"
  shows "(useGCS e \<and> GCS_BUCKET_NAME e = Some b
            \<and> blob_save e 0 = SaveThrew ta \<and> blob_save e 1 = SaveThrew tb
            \<and> blob_save e 2 = SaveThrew tc \<longrightarrow>
          POST e (Inr fd) =
            ([GcsSave b key (file_type f) (Some True), Sleep 1000,
              GcsSave b key (file_type f) (Some True), Sleep 1000,
              GcsSave b key (file_type f) (Some True)], failed))
         \<and> (\<not> useGCS e \<and> BLOB_READ_WRITE_TOKEN e = Some tok \<and> tok \<noteq> []
              \<and> put e 0 = PutThrew ta \<and> put e 1 = PutThrew tb \<and> put e 2 = PutThrew tc \<longrightarrow>
            POST e (Inr fd) =
              ([BlobPut key tok, Sleep 1000, BlobPut key tok, Sleep 1000, BlobPut key tok], failed))
         \<and> (tc = Error m \<longrightarrow> body_details (body failed) = Some m)"
  using assms
  by (auto simp: POST_accepted uploadToGCS_cases uploadToVercelBlob_cases uploadFailed_def
        NextResponse_json_def Let_def)

theorem exhausted_retries_give_500_witness:
  "validate (photoUpload None) = Inr (photo, js ''general'')
   \<and> blob_save (gcsEnv 3) 0 = SaveThrew (failure 0) \<and> blob_save (gcsEnv 3) 1 = SaveThrew (failure 1)
   \<and> blob_save (gcsEnv 3) 2 = SaveThrew (Error (js ''attempt 3 timed out''))
   \<and> blob_save (gcsEnv 3) 3 = Saved
   \<and> POST (gcsEnv 3) (Inr (photoUpload None)) =
       ([GcsSave (js ''bkt'') (js ''general/1700000000000-My Photo.PNG'') (js ''image/png'') (Some True),
         Sleep 1000,
         GcsSave (js ''bkt'') (js ''general/1700000000000-My Photo.PNG'') (js ''image/png'') (Some True),
         Sleep 1000,
         GcsSave (js ''bkt'') (js ''general/1700000000000-My Photo.PNG'') (js ''image/png'') (Some True)],
        \<lparr>status = 500,
         body = ErrorBody (js ''Failed to upload file'') (Some (js ''attempt 3 timed out''))\<rparr>)
   \<and> put (blobEnv 3) 2 = PutThrew (Error (js ''attempt 3 timed out''))
   \<and> POST (blobEnv 3) (Inr (photoUpload None)) =
       ([BlobPut (js ''general/1700000000000-My Photo.PNG'') (js ''tok''), Sleep 1000,
         BlobPut (js ''general/1700000000000-My Photo.PNG'') (js ''tok''), Sleep 1000,
         BlobPut (js ''general/1700000000000-My Photo.PNG'') (js ''tok'')],
        \<lparr>status = 500,
         body = ErrorBody (js ''Failed to upload file'') (Some (js ''attempt 3 timed out''))\<rparr>)"
proof -
  have k: "js ''general/1700000000000-My Photo.PNG''
             = js ''general'' @ js ''/'' @ numberToString (Date_now (gcsEnv 3)) @ js ''-'' @ file_name photo"
    "js ''general/1700000000000-My Photo.PNG''
             = js ''general'' @ js ''/'' @ numberToString (Date_now (blobEnv 3)) @ js ''-'' @ file_name photo"
    by (simp_all add: gcsEnv_simps blobEnv_simps photo_simps photo_key)
  have g: "blob_save (gcsEnv 3) 0 = SaveThrew (failure 0)" "blob_save (gcsEnv 3) 1 = SaveThrew (failure 1)"
    "blob_save (gcsEnv 3) 2 = SaveThrew (Error (js ''attempt 3 timed out''))"
    "blob_save (gcsEnv 3) 3 = Saved"
    by (simp_all add: gcsEnv_simps failure_2)
  have b: "put (blobEnv 3) 0 = PutThrew (failure 0)" "put (blobEnv 3) 1 = PutThrew (failure 1)"
    "put (blobEnv 3) 2 = PutThrew (Error (js ''attempt 3 timed out''))"
    by (simp_all add: blobEnv_simps failure_2)
  from exhausted_retries_give_500 [where b = "js ''bkt''" and ta = "failure 0"
      and tb = "failure 1" and tc = "Error (js ''attempt 3 timed out'')",
      OF validate_photoUpload k(1) refl, THEN conjunct1]
  have 1: "POST (gcsEnv 3) (Inr (photoUpload None)) =
       ([GcsSave (js ''bkt'') (js ''general/1700000000000-My Photo.PNG'') (js ''image/png'') (Some True),
         Sleep 1000,
         GcsSave (js ''bkt'') (js ''general/1700000000000-My Photo.PNG'') (js ''image/png'') (Some True),
         Sleep 1000,
         GcsSave (js ''bkt'') (js ''general/1700000000000-My Photo.PNG'') (js ''image/png'') (Some True)],
        \<lparr>status = 500,
         body = ErrorBody (js ''Failed to upload file'') (Some (js ''attempt 3 timed out''))\<rparr>)"
    using g by (simp add: gcsEnv_simps photo_simps)
  from exhausted_retries_give_500 [where tok = "js ''tok''" and ta = "failure 0"
      and tb = "failure 1" and tc = "Error (js ''attempt 3 timed out'')",
      OF validate_photoUpload k(2) refl, THEN conjunct2, THEN conjunct1]
  have 2: "POST (blobEnv 3) (Inr (photoUpload None)) =
       ([BlobPut (js ''general/1700000000000-My Photo.PNG'') (js ''tok''), Sleep 1000,
         BlobPut (js ''general/1700000000000-My Photo.PNG'') (js ''tok''), Sleep 1000,
         BlobPut (js ''general/1700000000000-My Photo.PNG'') (js ''tok'')],
        \<lparr>status = 500,
         body = ErrorBody (js ''Failed to upload file'') (Some (js ''attempt 3 timed out''))\<rparr>)"
    using b by (simp add: blobEnv_simps js_eq_Nil)
  show ?thesis
    using validate_photoUpload g b(3) 1 2 by simp
qed

section \<open>The object key\<close>

text \<open>
  The second handler builds the key from the sanitized file name: every write of an
  accepted request, and the \<open>fileName\<close> of a response with status 200, carry
  \<open>{directory}/{timestamp}-{sanitized name}\<close>.
\<close>

lemma POST_gcs_key_sanitized:
  assumes "validate fd = Inr (f, d)"
    and "POST_gcs unicodeLower e (Inr fd) = (evs, r)"
    and "key = d @ js ''/'' @ numberToString (Date_now e) @ js ''-''
                 @ sanitizedFileName unicodeLower (file_name f)"
  shows "(\<forall>ev \<in> set evs. isWrite ev \<longrightarrow> gcs_key ev = key)
         \<and> (status r = 200 \<longrightarrow> body_fileName (body r) = key)"
  using assms
  by (auto simp: POST_gcs_accepted Let_def NextResponse_json_def uploadFailed_def
        split: if_splits save_outcome.splits)

text \<open>
  C1. The first handler builds the key from \<open>file.name\<close> as it is. The upload of
  \<open>My Photo.PNG\<close> at time 1700000000000 with no directory field is accepted and stored
  under \<open>general/1700000000000-My Photo.PNG\<close>, which is not
  \<open>general/1700000000000-\<close> followed by the sanitized name; the second handler stores the
  same upload under \<open>general/1700000000000-my-photo.png\<close>.
\<close>

theorem raw_file_name_in_key:
  "POST (gcsEnv 0) (Inr (photoUpload None)) =
     ([GcsSave (js ''bkt'') (js ''general/1700000000000-My Photo.PNG'') (js ''image/png'') (Some True)],
      \<lparr>status = 200,
       body = UploadBody (js ''https://storage.googleapis.com/bkt/general/1700000000000-My Photo.PNG'')
                (js ''general/1700000000000-My Photo.PNG'') (Some (js ''gcs''))\<rparr>)
   \<and> js ''general/1700000000000-My Photo.PNG''
       \<noteq> js ''general/'' @ numberToString 1700000000000 @ js ''-''
           @ sanitizedFileName (\<lambda>s. s) (js ''My Photo.PNG'')
   \<and> body_fileName (body (snd (POST_gcs (\<lambda>s. s) (gcsEnv 0) (Inr (photoUpload None)))))
       = js ''general/1700000000000-my-photo.png''"
proof -
  have e: "useGCS (gcsEnv 0)" "GCS_BUCKET_NAME (gcsEnv 0) = Some (js ''bkt'')"
    "blob_save (gcsEnv 0) 0 = Saved" "Date_now (gcsEnv 0) = 1700000000000"
    by (simp_all add: gcsEnv_def useGCS_def js_eq_Nil)
  have n: "file_name photo = js ''My Photo.PNG''" "file_type photo = js ''image/png''"
    by (simp_all add: photo_def)
  have 1: "POST (gcsEnv 0) (Inr (photoUpload None)) =
     ([GcsSave (js ''bkt'') (js ''general/1700000000000-My Photo.PNG'') (js ''image/png'') (Some True)],
      \<lparr>status = 200,
       body = UploadBody (js ''https://storage.googleapis.com/bkt/general/1700000000000-My Photo.PNG'')
                (js ''general/1700000000000-My Photo.PNG'') (Some (js ''gcs''))\<rparr>)"
    by (simp add: POST_accepted [OF validate_photoUpload] uploadToGCS_cases e n photo_key
          NextResponse_json_def)
       (simp add: js_def)
  have 2: "js ''general/1700000000000-My Photo.PNG''
       \<noteq> js ''general/'' @ numberToString 1700000000000 @ js ''-''
           @ sanitizedFileName (\<lambda>s. s) (js ''My Photo.PNG'')"
    unfolding sanitized_photo by (simp add: js_def numberToString_def digits.simps)
  have 3: "body_fileName (body (snd (POST_gcs (\<lambda>s. s) (gcsEnv 0) (Inr (photoUpload None)))))
       = js ''general/1700000000000-my-photo.png''"
    by (simp add: POST_gcs_accepted [OF validate_photoUpload] e n sanitized_photo js_eq_Nil
          NextResponse_json_def Let_def)
       (simp add: js_def numberToString_def digits.simps)
  show ?thesis
    using 1 2 3 by blast
qed

end
